theory Spec2Isabelle
  imports Main
begin

section \<open>JSON documents\<close>

text \<open>
  The values \<^verbatim>\<open>fs.readJson\<close> hands to the engine. An object is the list of its entries
  in insertion order (the place JavaScript gives to keys that are array indices is not
  modelled); a number is opaque to the merge and is kept as an integer.
\<close>

datatype json =
    JNull
  | JBool bool
  | JNum int
  | JStr string
  | JArr "json list"
  | JObj "(string \<times> json) list"





section \<open>The merge of lodash\<close>

text \<open>
  \<^verbatim>\<open>apply.ts\<close> imports \<^verbatim>\<open>merge\<close> from lodash-es and calls
  \<^verbatim>\<open>merge({}, incoming, existing)\<close>. The functions below follow lodash's
  \<^verbatim>\<open>createAssigner\<close>, \<^verbatim>\<open>baseMerge\<close>, \<^verbatim>\<open>baseMergeDeep\<close> and
  \<^verbatim>\<open>assignMergeValue\<close> on JSON values:
  \<^item> a source that is falsy is passed over;
  \<^item> the keys of a source are its own keys, the indices of an array, the indices of a
    string;
  \<^item> a source value that is not an object or an array is assigned;
  \<^item> a source array is merged index by index into the array already there, or into a
    fresh \<^verbatim>\<open>[]\<close> when what is there is not an array;
  \<^item> a source object is merged key by key into the object or array already there, or into
    a fresh \<^verbatim>\<open>{}\<close> when what is there is neither.
  Where lodash adds named properties to an array (a source object over an array), the array
  is returned as it is, which is the array \<^verbatim>\<open>JSON.stringify\<close> writes when none of the
  names is an index or \<^verbatim>\<open>length\<close>. An object with a numeric \<^verbatim>\<open>length\<close> under a
  source array is taken as any other object, and the keys \<^verbatim>\<open>__proto__\<close> and
  \<^verbatim>\<open>constructor\<close> as any other key.
\<close>

fun truthy :: "json \<Rightarrow> bool" where
  "truthy JNull = False"
| "truthy (JBool b) = b"
| "truthy (JNum n) = (n \<noteq> 0)"
| "truthy (JStr s) = (s \<noteq> [])"
| "truthy (JArr xs) = True"
| "truthy (JObj kvs) = True"

text \<open>The decimal name of an array index, as \<^verbatim>\<open>String(i)\<close> gives it.\<close>

fun indexKey :: "nat \<Rightarrow> string" where
  "indexKey n =
     (if n < 10 then [char_of (48 + n)]
      else indexKey (n div 10) @ [char_of (48 + n mod 10)])"

declare indexKey.simps [simp del]

text \<open>\<^verbatim>\<open>keysIn\<close> with the values: what \<^verbatim>\<open>baseFor\<close> iterates over.\<close>

fun entries :: "json \<Rightarrow> (string \<times> json) list" where
  "entries (JObj kvs) = kvs"
| "entries (JArr xs) = zip (map indexKey [0..<length xs]) xs"
| "entries (JStr s) = zip (map indexKey [0..<length s]) (map (\<lambda>c. JStr [c]) s)"
| "entries v = []"

text \<open>\<^verbatim>\<open>baseAssignValue\<close> on an object: an existing key keeps its place.\<close>

fun assignValue :: "string \<Rightarrow> json \<Rightarrow> (string \<times> json) list \<Rightarrow> (string \<times> json) list" where
  "assignValue k v [] = [(k, v)]"
| "assignValue k v ((k', v') # kvs) =
     (if k' = k then (k, v) # kvs else (k', v') # assignValue k v kvs)"

fun isArray :: "json option \<Rightarrow> bool" where
  "isArray (Some (JArr xs)) = True"
| "isArray v = False"

fun arrayTarget :: "json option \<Rightarrow> json list" where
  "arrayTarget (Some (JArr xs)) = xs"
| "arrayTarget v = []"

fun objectTarget :: "json option \<Rightarrow> (string \<times> json) list" where
  "objectTarget (Some (JObj kvs)) = kvs"
| "objectTarget v = []"

text \<open>
  \<open>mergeValue objValue srcValue\<close> is the value \<^verbatim>\<open>baseMerge\<close> leaves under a key that
  held \<open>objValue\<close> (\<open>None\<close> for \<^verbatim>\<open>undefined\<close>) when the source holds
  \<open>srcValue\<close> there; \<open>mergeArray\<close> and \<open>mergeObject\<close> run it over the indices of
  a source array and the entries of a source object.
\<close>

fun mergeValue :: "json option \<Rightarrow> json \<Rightarrow> json"
  and mergeArray :: "json list \<Rightarrow> json list \<Rightarrow> json list"
  and mergeObject :: "(string \<times> json) list \<Rightarrow> (string \<times> json) list \<Rightarrow> (string \<times> json) list"
where
  "mergeValue ov (JArr ys) = JArr (mergeArray (arrayTarget ov) ys)"
| "mergeValue ov (JObj ss) =
     (if isArray ov then the ov else JObj (mergeObject (objectTarget ov) ss))"
| "mergeValue ov JNull = JNull"
| "mergeValue ov (JBool b) = JBool b"
| "mergeValue ov (JNum n) = JNum n"
| "mergeValue ov (JStr s) = JStr s"
| "mergeArray xs [] = xs"
| "mergeArray [] (y # ys) = mergeValue None y # mergeArray [] ys"
| "mergeArray (x # xs) (y # ys) = mergeValue (Some x) y # mergeArray xs ys"
| "mergeObject obj [] = obj"
| "mergeObject obj ((k, v) # ss) =
     mergeObject (assignValue k (mergeValue (map_of obj k) v) obj) ss"

fun baseMerge :: "json \<Rightarrow> json \<Rightarrow> json" where
  "baseMerge (JObj obj) src = JObj (mergeObject obj (entries src))"
| "baseMerge (JArr xs) (JArr ys) = JArr (mergeArray xs ys)"
| "baseMerge object src = object"

definition merge :: "json \<Rightarrow> json list \<Rightarrow> json" where
  "merge object sources =
     fold (\<lambda>src obj. if truthy src then baseMerge obj src else obj) sources object"

text \<open>The call of line 127: \<^verbatim>\<open>merge({}, incoming, existing)\<close>.\<close>

definition deepMerge :: "json \<Rightarrow> json \<Rightarrow> json" where
  "deepMerge base overlay = merge (JObj []) [base, overlay]"

section \<open>The file system and its failures\<close>

type_synonym path = string
type_synonym pattern = string
type_synonym content = string
type_synonym tree = "path \<rightharpoonup> content"

text \<open>
  What a failed \<^verbatim>\<open>fs.copy\<close> or \<^verbatim>\<open>fs.writeJson\<close> leaves at its destination path:
  the file as it was, no file, or the bytes written before the failure.
\<close>

datatype residue = Untouched | Removed | Partial content

fun leave :: "residue \<Rightarrow> path \<Rightarrow> tree \<Rightarrow> tree" where
  "leave Untouched f d = d"
| "leave Removed f d = d(f := None)"
| "leave (Partial c) f d = d(f \<mapsto> c)"

text \<open>
  The surroundings of one run: the source directory (its expansion of each pattern and its
  files), \<^verbatim>\<open>minimatch\<close>, \<^verbatim>\<open>JSON.parse\<close> and \<^verbatim>\<open>JSON.stringify\<close>, and which
  file-system call fails, with which message, at which moment of the run. A path is the
  relative path \<^verbatim>\<open>glob\<close> returns; two different relative paths are two different files.
\<close>

record env =
  glob :: "pattern \<Rightarrow> string + path list"
  minimatch :: "path \<Rightarrow> pattern \<Rightarrow> bool"
  sourceTree :: tree
  parseJson :: "content \<Rightarrow> string + json"
  stringifyJson :: "json \<Rightarrow> content"
  ensureDirFault :: "nat \<Rightarrow> path \<Rightarrow> string option"
  copyFault :: "nat \<Rightarrow> path \<Rightarrow> (string \<times> residue) option"
  readSourceFault :: "nat \<Rightarrow> path \<Rightarrow> string option"
  readDestFault :: "nat \<Rightarrow> path \<Rightarrow> string option"
  writeFault :: "nat \<Rightarrow> path \<Rightarrow> (string \<times> residue) option"

text \<open>\<^verbatim>\<open>fs.ensureDir(path.dirname(destPath))\<close> followed by \<^verbatim>\<open>fs.copy(srcPath, destPath)\<close>.\<close>

definition copyFile :: "env \<Rightarrow> nat \<Rightarrow> path \<Rightarrow> tree \<Rightarrow> (string + unit) \<times> tree" where
  "copyFile e t f d =
     (case ensureDirFault e t f of
        Some msg \<Rightarrow> (Inl msg, d)
      | None \<Rightarrow>
         (case copyFault e t f of
            Some (msg, r) \<Rightarrow> (Inl msg, leave r f d)
          | None \<Rightarrow>
             (case sourceTree e f of
                None \<Rightarrow> (Inl ''ENOENT: no such file or directory'', d)
              | Some c \<Rightarrow> (Inr (), d(f \<mapsto> c)))))"

definition readJson :: "env \<Rightarrow> string option \<Rightarrow> content option \<Rightarrow> string + json" where
  "readJson e fault file =
     (case fault of
        Some msg \<Rightarrow> Inl msg
      | None \<Rightarrow>
         (case file of
            None \<Rightarrow> Inl ''ENOENT: no such file or directory''
          | Some c \<Rightarrow> parseJson e c))"

definition writeJson :: "env \<Rightarrow> nat \<Rightarrow> path \<Rightarrow> json \<Rightarrow> tree \<Rightarrow> (string + unit) \<times> tree" where
  "writeJson e t f doc d =
     (case writeFault e t f of
        Some (msg, r) \<Rightarrow> (Inl msg, leave r f d)
      | None \<Rightarrow> (Inr (), d(f \<mapsto> stringifyJson e doc)))"

section \<open>The reconciliation engine\<close>

record ApplyResult =
  replaced :: "path list"
  merged :: "path list"
  added :: "path list"
  skipped :: "path list"
  errors :: "string list"

record FileCategories =
  alwaysReplace :: "pattern list option"
  neverTouch :: "pattern list option"
  mergeIfChanged :: "pattern list option"
  addOnly :: "pattern list option"

text \<open>The fields of \<^verbatim>\<open>VersionJson\<close> that \<^verbatim>\<open>applyFileCategories\<close> reads, with the identity.\<close>

record VersionJson =
  version :: string
  packageName :: string
  fileCategories :: "FileCategories option"

text \<open>\<^verbatim>\<open>versionJson.fileCategories?.X ?? []\<close>\<close>

definition category :: "(FileCategories \<Rightarrow> pattern list option) \<Rightarrow> VersionJson \<Rightarrow> pattern list" where
  "category X versionJson =
     (case fileCategories versionJson of
        None \<Rightarrow> []
      | Some fc \<Rightarrow> (case X fc of None \<Rightarrow> [] | Some ps \<Rightarrow> ps))"

text \<open>
  The variables of \<^verbatim>\<open>applyFileCategories\<close> that change during the run, the destination
  directory, and the number of expansions and files gone through so far.
\<close>

record state =
  result :: ApplyResult
  processedFiles :: "path set"
  destTree :: tree
  clock :: nat

definition pushReplaced :: "path \<Rightarrow> state \<Rightarrow> state" where
  "pushReplaced f s = s\<lparr>result := (result s)\<lparr>replaced := replaced (result s) @ [f]\<rparr>\<rparr>"

definition pushMerged :: "path \<Rightarrow> state \<Rightarrow> state" where
  "pushMerged f s = s\<lparr>result := (result s)\<lparr>merged := merged (result s) @ [f]\<rparr>\<rparr>"

definition pushAdded :: "path \<Rightarrow> state \<Rightarrow> state" where
  "pushAdded f s = s\<lparr>result := (result s)\<lparr>added := added (result s) @ [f]\<rparr>\<rparr>"

definition pushSkipped :: "path \<Rightarrow> state \<Rightarrow> state" where
  "pushSkipped f s = s\<lparr>result := (result s)\<lparr>skipped := skipped (result s) @ [f]\<rparr>\<rparr>"

definition pushError :: "string \<Rightarrow> state \<Rightarrow> state" where
  "pushError m s = s\<lparr>result := (result s)\<lparr>errors := errors (result s) @ [m]\<rparr>\<rparr>"

text \<open>
  The template \<^verbatim>\<open>`Failed to copy ${file}: ${getErrorMessage(err)}`\<close> and its like; an
  error is its message, so \<^verbatim>\<open>getErrorMessage\<close> is the identity.
\<close>

definition tagged :: "string \<Rightarrow> string \<Rightarrow> string \<Rightarrow> string" where
  "tagged what subject cause = what @ subject @ '': '' @ cause"

definition claim :: "path \<Rightarrow> state \<Rightarrow> state" where
  "claim f s = s\<lparr>processedFiles := insert f (processedFiles s)\<rparr>"

text \<open>
  \<^verbatim>\<open>minimatch(filePath, pattern, { dot: true })\<close>, taken to return for every path and
  pattern.
\<close>

definition matchesPattern :: "env \<Rightarrow> path \<Rightarrow> pattern \<Rightarrow> bool" where
  "matchesPattern e filePath pat = minimatch e filePath pat"

text \<open>\<^verbatim>\<open>neverTouch.some((ntPattern) => matchesPattern(file, ntPattern))\<close>\<close>

definition shouldSkip :: "env \<Rightarrow> pattern list \<Rightarrow> path \<Rightarrow> bool" where
  "shouldSkip e nt f = list_ex (matchesPattern e f) nt"

definition endsWith :: "string \<Rightarrow> string \<Rightarrow> bool" where
  "endsWith s suf = (length suf \<le> length s \<and> drop (length s - length suf) s = suf)"

text \<open>The body of the loop over the files of an \<^verbatim>\<open>alwaysReplace\<close> pattern (lines 62 to 85).\<close>

definition replaceFile :: "env \<Rightarrow> pattern list \<Rightarrow> path \<Rightarrow> state \<Rightarrow> state" where
  "replaceFile e nt f s =
     (if f \<in> processedFiles s then s
      else if shouldSkip e nt f then claim f (pushSkipped f s)
      else
        (case copyFile e (clock s) f (destTree s) of
           (Inr u, d) \<Rightarrow> claim f (pushReplaced f (s\<lparr>destTree := d\<rparr>))
         | (Inl msg, d) \<Rightarrow>
             pushError (tagged ''Failed to copy '' f msg) (s\<lparr>destTree := d\<rparr>)))"

text \<open>The body of the loop over the files of a \<^verbatim>\<open>mergeIfChanged\<close> pattern (lines 102 to 143).\<close>

definition mergeFile :: "env \<Rightarrow> pattern list \<Rightarrow> path \<Rightarrow> state \<Rightarrow> state" where
  "mergeFile e nt f s =
     (if f \<in> processedFiles s then s
      else if shouldSkip e nt f then claim f (pushSkipped f s)
      else if destTree s f \<noteq> None \<and> endsWith f ''.json'' then
        (case readJson e (readSourceFault e (clock s) f) (sourceTree e f) of
           Inl msg \<Rightarrow> pushError (tagged ''Failed to merge '' f msg) s
         | Inr incoming \<Rightarrow>
            (case readJson e (readDestFault e (clock s) f) (destTree s f) of
               Inl msg \<Rightarrow> pushError (tagged ''Failed to merge '' f msg) s
             | Inr existing \<Rightarrow>
                (case writeJson e (clock s) f (merge (JObj []) [incoming, existing]) (destTree s) of
                   (Inr u, d) \<Rightarrow> claim f (pushMerged f (s\<lparr>destTree := d\<rparr>))
                 | (Inl msg, d) \<Rightarrow>
                     pushError (tagged ''Failed to merge '' f msg) (s\<lparr>destTree := d\<rparr>))))
      else if destTree s f \<noteq> None then claim f (pushSkipped f s)
      else
        (case copyFile e (clock s) f (destTree s) of
           (Inr u, d) \<Rightarrow> claim f (pushReplaced f (s\<lparr>destTree := d\<rparr>))
         | (Inl msg, d) \<Rightarrow>
             pushError (tagged ''Failed to merge '' f msg) (s\<lparr>destTree := d\<rparr>)))"

text \<open>The body of the loop over the files of an \<^verbatim>\<open>addOnly\<close> pattern (lines 160 to 191).\<close>

definition addFile :: "env \<Rightarrow> pattern list \<Rightarrow> path \<Rightarrow> state \<Rightarrow> state" where
  "addFile e nt f s =
     (if f \<in> processedFiles s then s
      else if shouldSkip e nt f then claim f (pushSkipped f s)
      else if destTree s f = None then
        (case copyFile e (clock s) f (destTree s) of
           (Inr u, d) \<Rightarrow> claim f (pushAdded f (s\<lparr>destTree := d\<rparr>))
         | (Inl msg, d) \<Rightarrow>
             pushError (tagged ''Failed to add '' f msg) (s\<lparr>destTree := d\<rparr>))
      else claim f (pushSkipped f s))"

definition tick :: "state \<Rightarrow> state" where
  "tick s = s\<lparr>clock := Suc (clock s)\<rparr>"

text \<open>
  One turn of a loop over patterns: the expansion, then the files in the order
  \<^verbatim>\<open>glob\<close> returned them; a failed expansion is recorded under the loop's own message.
\<close>

definition processPattern ::
  "env \<Rightarrow> string \<Rightarrow> (path \<Rightarrow> state \<Rightarrow> state) \<Rightarrow> pattern \<Rightarrow> state \<Rightarrow> state" where
  "processPattern e failed body pat s =
     (case glob e pat of
        Inl msg \<Rightarrow> tick (pushError (tagged failed pat msg) s)
      | Inr files \<Rightarrow> fold (\<lambda>f s'. tick (body f s')) files (tick s))"

definition replacePhase :: "env \<Rightarrow> VersionJson \<Rightarrow> state \<Rightarrow> state" where
  "replacePhase e versionJson s =
     fold (processPattern e ''Failed to process pattern ''
             (replaceFile e (category neverTouch versionJson)))
          (category alwaysReplace versionJson) s"

definition mergePhase :: "env \<Rightarrow> VersionJson \<Rightarrow> state \<Rightarrow> state" where
  "mergePhase e versionJson s =
     fold (processPattern e ''Failed to process merge pattern ''
             (mergeFile e (category neverTouch versionJson)))
          (category mergeIfChanged versionJson) s"

definition addPhase :: "env \<Rightarrow> VersionJson \<Rightarrow> state \<Rightarrow> state" where
  "addPhase e versionJson s =
     fold (processPattern e ''Failed to process addOnly pattern ''
             (addFile e (category neverTouch versionJson)))
          (category addOnly versionJson) s"

definition initial :: "tree \<Rightarrow> state" where
  "initial destDir =
     \<lparr>result = \<lparr>replaced = [], merged = [], added = [], skipped = [], errors = []\<rparr>,
      processedFiles = {}, destTree = destDir, clock = 0\<rparr>"

definition run :: "env \<Rightarrow> tree \<Rightarrow> VersionJson \<Rightarrow> state" where
  "run e destDir versionJson =
     addPhase e versionJson (mergePhase e versionJson (replacePhase e versionJson (initial destDir)))"

text \<open>
  \<^verbatim>\<open>applyFileCategories(sourceDir, destDir, versionJson)\<close>: the source directory is in
  \<open>e\<close>; the value is the returned \<^verbatim>\<open>ApplyResult\<close> with the destination directory as
  the run left it.
\<close>

definition applyFileCategories :: "env \<Rightarrow> tree \<Rightarrow> VersionJson \<Rightarrow> ApplyResult \<times> tree" where
  "applyFileCategories e destDir versionJson =
     (result (run e destDir versionJson), destTree (run e destDir versionJson))"

section \<open>Invariants of a run\<close>

text \<open>Every path the result records, in the order of the four lists.\<close>

definition outcomes :: "ApplyResult \<Rightarrow> path list" where
  "outcomes r = replaced r @ merged r @ added r @ skipped r"

text \<open>The state after the first loop, and after the second.\<close>

definition afterReplace :: "env \<Rightarrow> tree \<Rightarrow> VersionJson \<Rightarrow> state" where
  "afterReplace e destDir versionJson = replacePhase e versionJson (initial destDir)"

definition afterMerge :: "env \<Rightarrow> tree \<Rightarrow> VersionJson \<Rightarrow> state" where
  "afterMerge e destDir versionJson = mergePhase e versionJson (afterReplace e destDir versionJson)"


text \<open>
  The shapes one turn of a file loop takes: the file was claimed before; it is protected
  by \<^verbatim>\<open>neverTouch\<close>; it is kept, replaced, merged or added and claimed; or the
  attempt failed, which only adds an error. No turn changes the destination of another
  path.
\<close>

inductive fileStep :: "env \<Rightarrow> pattern list \<Rightarrow> path \<Rightarrow> state \<Rightarrow> state \<Rightarrow> bool"
  for e :: env and nt :: "pattern list" and f :: path and s :: state
where
  Claimed: "f \<in> processedFiles s \<Longrightarrow> fileStep e nt f s s"
| Protected: "f \<notin> processedFiles s \<Longrightarrow> shouldSkip e nt f \<Longrightarrow>
     fileStep e nt f s (claim f (pushSkipped f s))"
| Kept: "f \<notin> processedFiles s \<Longrightarrow> \<not> shouldSkip e nt f \<Longrightarrow>
     fileStep e nt f s (claim f (pushSkipped f s))"
| Replaced: "f \<notin> processedFiles s \<Longrightarrow> \<not> shouldSkip e nt f \<Longrightarrow>
     (\<And>g. g \<noteq> f \<Longrightarrow> d g = destTree s g) \<Longrightarrow>
     fileStep e nt f s (claim f (pushReplaced f (s\<lparr>destTree := d\<rparr>)))"
| Merged: "f \<notin> processedFiles s \<Longrightarrow> \<not> shouldSkip e nt f \<Longrightarrow>
     (\<And>g. g \<noteq> f \<Longrightarrow> d g = destTree s g) \<Longrightarrow>
     fileStep e nt f s (claim f (pushMerged f (s\<lparr>destTree := d\<rparr>)))"
| Added: "f \<notin> processedFiles s \<Longrightarrow> \<not> shouldSkip e nt f \<Longrightarrow>
     (\<And>g. g \<noteq> f \<Longrightarrow> d g = destTree s g) \<Longrightarrow>
     fileStep e nt f s (claim f (pushAdded f (s\<lparr>destTree := d\<rparr>)))"
| Failed: "f \<notin> processedFiles s \<Longrightarrow> \<not> shouldSkip e nt f \<Longrightarrow>
     (\<And>g. g \<noteq> f \<Longrightarrow> d g = destTree s g) \<Longrightarrow>
     verb \<in> {''Failed to copy '', ''Failed to merge '', ''Failed to add ''} \<Longrightarrow>
     fileStep e nt f s (pushError (tagged verb f msg) (s\<lparr>destTree := d\<rparr>))"

text \<open>Every recorded path is recorded once, and the recorded paths are the claimed ones.\<close>

definition accounted :: "state \<Rightarrow> bool" where
  "accounted s \<longleftrightarrow>
     distinct (outcomes (result s)) \<and> set (outcomes (result s)) = processedFiles s"




text \<open>
  A failed attempt seen from outside: one more error, tagged with the path and the cause,
  and the four lists and the claimed paths as before.
\<close>

definition failedWith :: "string \<Rightarrow> path \<Rightarrow> string \<Rightarrow> state \<Rightarrow> state \<Rightarrow> bool" where
  "failedWith what f cause s s' \<longleftrightarrow>
     errors (result s') = errors (result s) @ [tagged what f cause] \<and>
     replaced (result s') = replaced (result s) \<and> merged (result s') = merged (result s) \<and>
     added (result s') = added (result s) \<and> skipped (result s') = skipped (result s) \<and>
     processedFiles s' = processedFiles s"


section \<open>An upgrade to run\<close>

text \<open>
  A kit with a script, three JSON files, a note and a readme, upgraded over an installation
  whose owner changed the theme, emptied the plugin list and kept local state.
  \<^verbatim>\<open>JSON.parse\<close> and \<^verbatim>\<open>JSON.stringify\<close> are given on the documents of the kit,
  the texts written without line breaks.
\<close>

definition configIncoming :: json where
  "configIncoming = JObj [(''version'', JStr ''1.0''), (''theme'', JStr ''dark'')]"

definition configExisting :: json where
  "configExisting =
     JObj [(''version'', JStr ''1.0''), (''theme'', JStr ''light''), (''custom'', JBool True)]"

definition pluginsIncoming :: json where
  "pluginsIncoming = JObj [(''plugins'', JArr [JStr ''a'', JStr ''b''])]"

definition pluginsExisting :: json where
  "pluginsExisting = JObj [(''plugins'', JArr [])]"

definition configIncomingText :: content where
  \<open>configIncomingText = ''{"version":"1.0","theme":"dark"}''\<close>

definition configExistingText :: content where
  \<open>configExistingText = ''{"version":"1.0","theme":"light","custom":true}''\<close>

definition pluginsIncomingText :: content where
  \<open>pluginsIncomingText = ''{"plugins":["a","b"]}''\<close>

definition pluginsExistingText :: content where
  \<open>pluginsExistingText = ''{"plugins":[]}''\<close>

definition stateText :: content where
  \<open>stateText = ''{"runs":7}''\<close>

definition demoParse :: "content \<Rightarrow> string + json" where
  "demoParse c =
     (if c = configIncomingText then Inr configIncoming
      else if c = configExistingText then Inr configExisting
      else if c = pluginsIncomingText then Inr pluginsIncoming
      else if c = pluginsExistingText then Inr pluginsExisting
      else Inl ''Unexpected token in JSON'')"

definition demoStringify :: "json \<Rightarrow> content" where
  "demoStringify doc =
     (if doc = configExisting then configExistingText
      else if doc = pluginsIncoming then pluginsIncomingText
      else ''null'')"

definition demoSource :: tree where
  "demoSource =
     map_of [(''scripts/run.sh'', ''echo v2''), (''config.json'', configIncomingText),
             (''plugins.json'', pluginsIncomingText), (''state.json'', ''{}''),
             (''notes.txt'', ''welcome''), (''README.md'', ''# v2'')]"

definition demoDest :: tree where
  "demoDest =
     map_of [(''scripts/run.sh'', ''echo v1''), (''config.json'', configExistingText),
             (''plugins.json'', pluginsExistingText), (''state.json'', stateText),
             (''README.md'', ''# mine'')]"

definition demoGlob :: "pattern \<Rightarrow> string + path list" where
  "demoGlob pat =
     (if pat = ''docs/**'' then Inl ''EACCES: permission denied, scandir''
      else if pat = ''*.json'' then Inr [''config.json'', ''plugins.json'', ''state.json'']
      else (case demoSource pat of None \<Rightarrow> Inr [] | Some c \<Rightarrow> Inr [pat]))"

definition demoMatch :: "path \<Rightarrow> pattern \<Rightarrow> bool" where
  "demoMatch f pat = (f = pat \<or> (pat = ''*.json'' \<and> endsWith f ''.json''))"

definition demoEnv :: env where
  "demoEnv =
     \<lparr>glob = demoGlob, minimatch = demoMatch, sourceTree = demoSource,
      parseJson = demoParse, stringifyJson = demoStringify,
      ensureDirFault = (\<lambda>t f. None), copyFault = (\<lambda>t f. None),
      readSourceFault = (\<lambda>t f. None), readDestFault = (\<lambda>t f. None),
      writeFault = (\<lambda>t f. None)\<rparr>"

definition demoManifest :: VersionJson where
  "demoManifest =
     \<lparr>version = ''2.0.0'', packageName = ''demo-kit'',
      fileCategories = Some
        \<lparr>alwaysReplace = Some [''scripts/run.sh'', ''docs/**''],
         neverTouch = Some [''state.json''],
         mergeIfChanged = Some [''*.json'', ''README.md''],
         addOnly = Some [''notes.txt'', ''scripts/run.sh'']\<rparr>\<rparr>"


text \<open>The same upgrade when the installed script cannot be overwritten.\<close>

definition lockedEnv :: env where
  "lockedEnv =
     demoEnv\<lparr>copyFault := (\<lambda>t f. if f = ''scripts/run.sh''
        then Some (''EACCES: permission denied'', Untouched) else None)\<rparr>"

text \<open>The same upgrade on a full disk: a written file is opened, emptied, and the write fails.\<close>

definition fullDiskEnv :: env where
  "fullDiskEnv =
     demoEnv\<lparr>writeFault := (\<lambda>t f. Some (''ENOSPC: no space left on device'', Partial []))\<rparr>"

text \<open>The installation with a configuration that is not JSON any more.\<close>

definition brokenDest :: tree where
  "brokenDest = demoDest(''config.json'' \<mapsto> ''{oops'')"

section \<open>Properties of the merge\<close>







































section \<open>Properties of the engine\<close>


subsection \<open>Reading the state after each update\<close>

lemma push_simps [simp]:
  "processedFiles (pushReplaced f s) = processedFiles s"
  "processedFiles (pushMerged f s) = processedFiles s"
  "processedFiles (pushAdded f s) = processedFiles s"
  "processedFiles (pushSkipped f s) = processedFiles s"
  "processedFiles (pushError m s) = processedFiles s"
  "destTree (pushReplaced f s) = destTree s"
  "destTree (pushMerged f s) = destTree s"
  "destTree (pushAdded f s) = destTree s"
  "destTree (pushSkipped f s) = destTree s"
  "destTree (pushError m s) = destTree s"
  "clock (pushReplaced f s) = clock s"
  "clock (pushMerged f s) = clock s"
  "clock (pushAdded f s) = clock s"
  "clock (pushSkipped f s) = clock s"
  "clock (pushError m s) = clock s"
  by (simp_all add: pushReplaced_def pushMerged_def pushAdded_def pushSkipped_def pushError_def)

lemma push_result_simps [simp]:
  "result (pushReplaced f s) = (result s)\<lparr>replaced := replaced (result s) @ [f]\<rparr>"
  "result (pushMerged f s) = (result s)\<lparr>merged := merged (result s) @ [f]\<rparr>"
  "result (pushAdded f s) = (result s)\<lparr>added := added (result s) @ [f]\<rparr>"
  "result (pushSkipped f s) = (result s)\<lparr>skipped := skipped (result s) @ [f]\<rparr>"
  "result (pushError m s) = (result s)\<lparr>errors := errors (result s) @ [m]\<rparr>"
  by (simp_all add: pushReplaced_def pushMerged_def pushAdded_def pushSkipped_def pushError_def)

lemma claim_simps [simp]:
  "processedFiles (claim f s) = insert f (processedFiles s)"
  "result (claim f s) = result s"
  "destTree (claim f s) = destTree s"
  "clock (claim f s) = clock s"
  by (simp_all add: claim_def)

lemma tick_simps [simp]:
  "processedFiles (tick s) = processedFiles s"
  "result (tick s) = result s"
  "destTree (tick s) = destTree s"
  "clock (tick s) = Suc (clock s)"
  by (simp_all add: tick_def)

lemma leave_other: "g \<noteq> f \<Longrightarrow> leave r f d g = d g"
  by (cases r) auto

lemma copyFile_other: "copyFile e t f d = (r, d') \<Longrightarrow> g \<noteq> f \<Longrightarrow> d' g = d g"
  by (auto simp: copyFile_def leave_other split: option.splits prod.splits)

lemma writeJson_other: "writeJson e t f doc d = (r, d') \<Longrightarrow> g \<noteq> f \<Longrightarrow> d' g = d g"
  by (auto simp: writeJson_def leave_other split: option.splits prod.splits)

subsection \<open>Invariants of the loops\<close>

lemma fold_invariant:
  assumes "\<And>x s. P s \<Longrightarrow> P (step x s)" and "P s"
  shows "P (fold step xs s)"
  using assms(2) by (induction xs arbitrary: s) (auto intro: assms(1))


text \<open>A property kept by every update of a file body is kept by a whole run.\<close>

lemma processPattern_invariant:
  assumes t: "\<And>s. P s \<Longrightarrow> P (tick s)"
    and er: "\<And>m s. P s \<Longrightarrow> P (pushError m s)"
    and b: "\<And>f s. P s \<Longrightarrow> P (body f s)"
    and p: "P s"
  shows "P (processPattern e failed body pat s)"
proof (cases "glob e pat")
  case (Inl msg)
  then show ?thesis using p by (simp add: processPattern_def t er)
next
  case (Inr files)
  have "P (fold (\<lambda>f s'. tick (body f s')) files (tick s))"
    by (rule fold_invariant) (auto intro: t b p)
  then show ?thesis using Inr by (simp add: processPattern_def)
qed

lemma phase_invariant:
  assumes t: "\<And>s. P s \<Longrightarrow> P (tick s)"
    and er: "\<And>m s. P s \<Longrightarrow> P (pushError m s)"
    and b: "\<And>f s. P s \<Longrightarrow> P (body f s)"
    and p: "P s"
  shows "P (fold (processPattern e failed body) pats s)"
proof (rule fold_invariant[where P = P])
  fix pat s
  assume "P s"
  with t er b show "P (processPattern e failed body pat s)"
    by (rule processPattern_invariant[where P = P])
qed (rule p)



lemma replaceFile_step: "fileStep e nt f s (replaceFile e nt f s)"
proof -
  obtain r d where c: "copyFile e (clock s) f (destTree s) = (r, d)" by (cases "copyFile e (clock s) f (destTree s)")
  then have o: "\<And>g. g \<noteq> f \<Longrightarrow> d g = destTree s g" by (rule copyFile_other)
  show ?thesis
    using c o by (cases r) (auto simp: replaceFile_def intro: fileStep.intros)
qed

lemma addFile_step: "fileStep e nt f s (addFile e nt f s)"
proof -
  obtain r d where c: "copyFile e (clock s) f (destTree s) = (r, d)" by (cases "copyFile e (clock s) f (destTree s)")
  then have o: "\<And>g. g \<noteq> f \<Longrightarrow> d g = destTree s g" by (rule copyFile_other)
  show ?thesis
    using c o by (cases r) (auto simp: addFile_def intro: fileStep.intros)
qed

lemma mergeFile_step: "fileStep e nt f s (mergeFile e nt f s)"
proof -
  obtain r d where c: "copyFile e (clock s) f (destTree s) = (r, d)" by (cases "copyFile e (clock s) f (destTree s)")
  then have o: "\<And>g. g \<noteq> f \<Longrightarrow> d g = destTree s g" by (rule copyFile_other)
  have copy: "fileStep e nt f s
     (case copyFile e (clock s) f (destTree s) of
        (Inr u, d) \<Rightarrow> claim f (pushReplaced f (s\<lparr>destTree := d\<rparr>))
      | (Inl msg, d) \<Rightarrow> pushError (tagged ''Failed to merge '' f msg) (s\<lparr>destTree := d\<rparr>))"
    if "f \<notin> processedFiles s" "\<not> shouldSkip e nt f"
    using c o that by (cases r) (auto intro: fileStep.intros)
  have err: "fileStep e nt f s (pushError (tagged ''Failed to merge '' f msg) s)"
    if "f \<notin> processedFiles s" "\<not> shouldSkip e nt f" for msg
    using fileStep.Failed[of f s e nt "destTree s" "''Failed to merge ''" msg] that by simp
  have wr: "fileStep e nt f s
     (case writeJson e (clock s) f doc (destTree s) of
        (Inr u, d) \<Rightarrow> claim f (pushMerged f (s\<lparr>destTree := d\<rparr>))
      | (Inl msg, d) \<Rightarrow> pushError (tagged ''Failed to merge '' f msg) (s\<lparr>destTree := d\<rparr>))"
    if "f \<notin> processedFiles s" "\<not> shouldSkip e nt f" for doc
  proof -
    obtain r' d' where w: "writeJson e (clock s) f doc (destTree s) = (r', d')"
      by (cases "writeJson e (clock s) f doc (destTree s)")
    then have "\<And>g. g \<noteq> f \<Longrightarrow> d' g = destTree s g" by (rule writeJson_other)
    then show ?thesis using w that by (cases r') (auto intro: fileStep.intros)
  qed
  show ?thesis
    unfolding mergeFile_def
    by (auto intro: fileStep.Claimed fileStep.Protected fileStep.Kept copy err wr split: sum.splits)
qed





subsection \<open>From one file to the run\<close>

lemma replacePhase_invariant:
  assumes t: "\<And>s. P s \<Longrightarrow> P (tick s)"
    and er: "\<And>m s. P s \<Longrightarrow> P (pushError m s)"
    and st: "\<And>g s s'. fileStep e (category neverTouch vj) g s s' \<Longrightarrow> P s \<Longrightarrow> P s'"
    and p: "P s"
  shows "P (replacePhase e vj s)"
  unfolding replacePhase_def
proof (rule phase_invariant[where P = P])
  show "P (replaceFile e (category neverTouch vj) g s)" if "P s" for g s
    using replaceFile_step that by (rule st)
qed (auto intro: t er p)

lemma mergePhase_invariant:
  assumes t: "\<And>s. P s \<Longrightarrow> P (tick s)"
    and er: "\<And>m s. P s \<Longrightarrow> P (pushError m s)"
    and st: "\<And>g s s'. fileStep e (category neverTouch vj) g s s' \<Longrightarrow> P s \<Longrightarrow> P s'"
    and p: "P s"
  shows "P (mergePhase e vj s)"
  unfolding mergePhase_def
proof (rule phase_invariant[where P = P])
  show "P (mergeFile e (category neverTouch vj) g s)" if "P s" for g s
    using mergeFile_step that by (rule st)
qed (auto intro: t er p)

lemma addPhase_invariant:
  assumes t: "\<And>s. P s \<Longrightarrow> P (tick s)"
    and er: "\<And>m s. P s \<Longrightarrow> P (pushError m s)"
    and st: "\<And>g s s'. fileStep e (category neverTouch vj) g s s' \<Longrightarrow> P s \<Longrightarrow> P s'"
    and p: "P s"
  shows "P (addPhase e vj s)"
  unfolding addPhase_def
proof (rule phase_invariant[where P = P])
  show "P (addFile e (category neverTouch vj) g s)" if "P s" for g s
    using addFile_step that by (rule st)
qed (auto intro: t er p)

lemma run_stable:
  assumes t: "\<And>s. P s \<Longrightarrow> P (tick s)"
    and er: "\<And>m s. P s \<Longrightarrow> P (pushError m s)"
    and st: "\<And>g s s'. fileStep e (category neverTouch vj) g s s' \<Longrightarrow> P s \<Longrightarrow> P s'"
    and p: "P (initial d)"
  shows "P (run e d vj)"
proof -
  have "P (replacePhase e vj (initial d))"
    using t er st p by (rule replacePhase_invariant[where P = P])
  then have "P (mergePhase e vj (replacePhase e vj (initial d)))"
    using t er st by (rule mergePhase_invariant[where P = P, rotated 3])
  then show ?thesis
    unfolding run_def using t er st by (rule addPhase_invariant[where P = P, rotated 3])
qed



subsection \<open>What one file changes\<close>

lemma accounted_step: "fileStep e nt g s s' \<Longrightarrow> accounted s \<Longrightarrow> accounted s'"
  by (induction rule: fileStep.induct) (auto simp: accounted_def outcomes_def)













lemma run_phases: "run e d vj = addPhase e vj (afterMerge e d vj)"
  by (simp add: run_def afterMerge_def afterReplace_def)


lemma accounted_run_states:
  "accounted (afterReplace e d vj)" "accounted (afterMerge e d vj)" "accounted (run e d vj)"
proof -
  have t: "accounted (tick s)" if "accounted s" for s using that by (simp add: accounted_def)
  have er: "accounted (pushError m s)" if "accounted s" for m s
    using that by (simp add: accounted_def outcomes_def)
  have st: "accounted s'" if "fileStep e (category neverTouch vj) g s s'" "accounted s" for g s s'
    using that by (rule accounted_step)
  have p: "accounted (initial d)" by (simp add: accounted_def outcomes_def initial_def)
  show 1: "accounted (afterReplace e d vj)"
    unfolding afterReplace_def using t er st p by (rule replacePhase_invariant[where P = accounted])
  show 2: "accounted (afterMerge e d vj)"
    unfolding afterMerge_def using t er st 1 by (rule mergePhase_invariant[where P = accounted])
  show "accounted (run e d vj)"
    unfolding run_phases using t er st 2 by (rule addPhase_invariant[where P = accounted])
qed



section \<open>The claims of the specification\<close>

subsection \<open>Protected files\<close>



subsection \<open>One outcome for each path\<close>

text \<open>
  C10. In the result of every run the four lists \<^verbatim>\<open>replaced\<close>, \<^verbatim>\<open>merged\<close>,
  \<^verbatim>\<open>added\<close> and \<^verbatim>\<open>skipped\<close> are pairwise disjoint, and no path stands twice in
  any of them: each recording claims the path, and a failed attempt records no outcome.
\<close>

theorem result_sets_disjoint:
  "set (replaced (fst (applyFileCategories e d vj))) \<inter> set (merged (fst (applyFileCategories e d vj))) = {} \<and>
   set (replaced (fst (applyFileCategories e d vj))) \<inter> set (added (fst (applyFileCategories e d vj))) = {} \<and>
   set (replaced (fst (applyFileCategories e d vj))) \<inter> set (skipped (fst (applyFileCategories e d vj))) = {} \<and>
   set (merged (fst (applyFileCategories e d vj))) \<inter> set (added (fst (applyFileCategories e d vj))) = {} \<and>
   set (merged (fst (applyFileCategories e d vj))) \<inter> set (skipped (fst (applyFileCategories e d vj))) = {} \<and>
   set (added (fst (applyFileCategories e d vj))) \<inter> set (skipped (fst (applyFileCategories e d vj))) = {} \<and>
   distinct (outcomes (fst (applyFileCategories e d vj)))"
proof -
  have "accounted (run e d vj)"
  proof (rule run_stable[where P = accounted])
    show "accounted (initial d)" by (simp add: accounted_def outcomes_def initial_def)
    show "accounted (tick s)" if "accounted s" for s using that by (simp add: accounted_def)
    show "accounted (pushError m s)" if "accounted s" for m s
      using that by (simp add: accounted_def outcomes_def)
    show "accounted s'" if "fileStep e (category neverTouch vj) g s s'" "accounted s" for g s s'
      using that by (rule accounted_step)
  qed
  then have "distinct (outcomes (fst (applyFileCategories e d vj)))"
    by (simp add: accounted_def applyFileCategories_def)
  then show ?thesis by (auto simp: outcomes_def)
qed

subsection \<open>Arrays under the merge\<close>




subsection \<open>Merging twice\<close>



subsection \<open>Running to completion\<close>



subsection \<open>Claimed once\<close>



subsection \<open>A mergeIfChanged file that is not merged\<close>



subsection \<open>A file whose attempt fails\<close>

text \<open>
  C5 says that a file whose copy, read or write fails stands in none of the four lists of
  the returned result. A failed attempt does not claim the path, so a later pattern that
  yields the same path goes through it again: here the script cannot be overwritten by
  \<^verbatim>\<open>alwaysReplace\<close>, and \<^verbatim>\<open>addOnly\<close>, which lists it too, finds it in the
  destination and records it under \<^verbatim>\<open>skipped\<close>.
\<close>

theorem failed_then_skipped_counterexample:
  "tagged ''Failed to copy '' ''scripts/run.sh'' ''EACCES: permission denied''
     \<in> set (errors (fst (applyFileCategories lockedEnv demoDest demoManifest))) \<and>
   ''scripts/run.sh'' \<in> set (skipped (fst (applyFileCategories lockedEnv demoDest demoManifest)))"
  by (simp add: applyFileCategories_def run_def replacePhase_def mergePhase_def addPhase_def
      processPattern_def replaceFile_def mergeFile_def addFile_def copyFile_def readJson_def
      writeJson_def shouldSkip_def matchesPattern_def category_def initial_def endsWith_def
      merge_def lockedEnv_def demoEnv_def demoManifest_def demoGlob_def demoMatch_def
      demoSource_def demoDest_def demoParse_def demoStringify_def configIncoming_def
      configExisting_def pluginsIncoming_def pluginsExisting_def configIncomingText_def
      configExistingText_def pluginsIncomingText_def pluginsExistingText_def stateText_def
      pushReplaced_def pushMerged_def pushAdded_def pushSkipped_def pushError_def claim_def
      tick_def)

text \<open>
  C5 as amended. An attempt on a file (unclaimed, not protected) whose copy, read, parse or
  write fails adds one error, tagged with the path and the cause, adds nothing to any of the
  four lists and does not claim the path; and the paths in the four lists of the returned
  result are exactly the claimed ones, so a path whose attempts all fail is visible in the
  error list only.
\<close>

theorem failed_attempt_records_only_error:
  assumes "f \<notin> processedFiles s" and "\<not> shouldSkip e nt f"
  shows "(\<forall>msg d'. copyFile e (clock s) f (destTree s) = (Inl msg, d') \<longrightarrow>
            failedWith ''Failed to copy '' f msg s (replaceFile e nt f s)) \<and>
         (\<forall>msg d'. destTree s f = None \<longrightarrow> copyFile e (clock s) f (destTree s) = (Inl msg, d') \<longrightarrow>
            failedWith ''Failed to merge '' f msg s (mergeFile e nt f s) \<and>
            failedWith ''Failed to add '' f msg s (addFile e nt f s)) \<and>
         (\<forall>msg. destTree s f \<noteq> None \<longrightarrow> endsWith f ''.json'' \<longrightarrow>
            readJson e (readSourceFault e (clock s) f) (sourceTree e f) = Inl msg \<longrightarrow>
            failedWith ''Failed to merge '' f msg s (mergeFile e nt f s)) \<and>
         (\<forall>msg incoming. destTree s f \<noteq> None \<longrightarrow> endsWith f ''.json'' \<longrightarrow>
            readJson e (readSourceFault e (clock s) f) (sourceTree e f) = Inr incoming \<longrightarrow>
            readJson e (readDestFault e (clock s) f) (destTree s f) = Inl msg \<longrightarrow>
            failedWith ''Failed to merge '' f msg s (mergeFile e nt f s)) \<and>
         (\<forall>msg incoming existing d'. destTree s f \<noteq> None \<longrightarrow> endsWith f ''.json'' \<longrightarrow>
            readJson e (readSourceFault e (clock s) f) (sourceTree e f) = Inr incoming \<longrightarrow>
            readJson e (readDestFault e (clock s) f) (destTree s f) = Inr existing \<longrightarrow>
            writeJson e (clock s) f (deepMerge incoming existing) (destTree s) = (Inl msg, d') \<longrightarrow>
            failedWith ''Failed to merge '' f msg s (mergeFile e nt f s)) \<and>
         set (outcomes (fst (applyFileCategories e d vj))) = processedFiles (run e d vj)"
proof -
  have 1: "failedWith ''Failed to copy '' f msg s (replaceFile e nt f s)"
    if "copyFile e (clock s) f (destTree s) = (Inl msg, d')" for msg d'
    using assms that by (simp add: replaceFile_def failedWith_def)
  have 2: "failedWith ''Failed to merge '' f msg s (mergeFile e nt f s) \<and>
           failedWith ''Failed to add '' f msg s (addFile e nt f s)"
    if "destTree s f = None" "copyFile e (clock s) f (destTree s) = (Inl msg, d')" for msg d'
    using assms that by (simp add: mergeFile_def addFile_def failedWith_def)
  have 3: "failedWith ''Failed to merge '' f msg s (mergeFile e nt f s)"
    if "destTree s f \<noteq> None" "endsWith f ''.json''"
      "readJson e (readSourceFault e (clock s) f) (sourceTree e f) = Inl msg" for msg
    using assms that by (simp add: mergeFile_def failedWith_def)
  have 4: "failedWith ''Failed to merge '' f msg s (mergeFile e nt f s)"
    if "destTree s f \<noteq> None" "endsWith f ''.json''"
      "readJson e (readSourceFault e (clock s) f) (sourceTree e f) = Inr incoming"
      "readJson e (readDestFault e (clock s) f) (destTree s f) = Inl msg" for msg incoming
    using assms that by (simp add: mergeFile_def failedWith_def)
  have 5: "failedWith ''Failed to merge '' f msg s (mergeFile e nt f s)"
    if "destTree s f \<noteq> None" "endsWith f ''.json''"
      "readJson e (readSourceFault e (clock s) f) (sourceTree e f) = Inr incoming"
      "readJson e (readDestFault e (clock s) f) (destTree s f) = Inr existing"
      "writeJson e (clock s) f (deepMerge incoming existing) (destTree s) = (Inl msg, d')"
    for msg incoming existing d'
    using assms that by (simp add: mergeFile_def failedWith_def deepMerge_def)
  have 6: "set (outcomes (fst (applyFileCategories e d vj))) = processedFiles (run e d vj)"
    using accounted_run_states(3)[of e d vj] by (simp add: accounted_def applyFileCategories_def)
  from 1 2 3 4 5 6 show ?thesis by blast
qed

theorem failed_attempt_records_only_error_witness:
  "''scripts/run.sh'' \<notin> processedFiles (initial demoDest) \<and>
   \<not> shouldSkip lockedEnv [''state.json''] ''scripts/run.sh'' \<and>
   copyFile lockedEnv (clock (initial demoDest)) ''scripts/run.sh'' (destTree (initial demoDest))
     = (Inl ''EACCES: permission denied'', demoDest) \<and>
   errors (result (replaceFile lockedEnv [''state.json''] ''scripts/run.sh'' (initial demoDest)))
     = [tagged ''Failed to copy '' ''scripts/run.sh'' ''EACCES: permission denied''] \<and>
   replaced (result (replaceFile lockedEnv [''state.json''] ''scripts/run.sh'' (initial demoDest))) = [] \<and>
   skipped (result (replaceFile lockedEnv [''state.json''] ''scripts/run.sh'' (initial demoDest))) = [] \<and>
   processedFiles (replaceFile lockedEnv [''state.json''] ''scripts/run.sh'' (initial demoDest)) = {}"
proof -
  have h: "''scripts/run.sh'' \<notin> processedFiles (initial demoDest)"
    "\<not> shouldSkip lockedEnv [''state.json''] ''scripts/run.sh''"
    by (simp_all add: initial_def shouldSkip_def matchesPattern_def lockedEnv_def demoEnv_def
        demoMatch_def endsWith_def)
  have c: "copyFile lockedEnv (clock (initial demoDest)) ''scripts/run.sh'' (destTree (initial demoDest))
     = (Inl ''EACCES: permission denied'', demoDest)"
    by (simp add: copyFile_def lockedEnv_def demoEnv_def initial_def)
  have "failedWith ''Failed to copy '' ''scripts/run.sh'' ''EACCES: permission denied''
          (initial demoDest)
          (replaceFile lockedEnv [''state.json''] ''scripts/run.sh'' (initial demoDest))"
    using failed_attempt_records_only_error[OF h] c by blast
  then show ?thesis using h c by (simp add: failedWith_def initial_def)
qed

subsection \<open>A merge that fails\<close>

text \<open>
  C7 says that after a read, parse or write failure of a merge the destination file is what
  it was. The engine writes the merged document with \<^verbatim>\<open>fs.writeJson\<close> onto the
  destination file itself, with no temporary file and no restoring; a write that fails after
  the file was opened leaves what it left. On a full disk the configuration of the
  installation ends empty, and the error is recorded.
\<close>

theorem failed_write_counterexample:
  "demoDest ''config.json'' = Some configExistingText \<and>
   snd (applyFileCategories fullDiskEnv demoDest demoManifest) ''config.json'' = Some [] \<and>
   snd (applyFileCategories fullDiskEnv demoDest demoManifest) ''config.json''
     \<noteq> demoDest ''config.json'' \<and>
   tagged ''Failed to merge '' ''config.json'' ''ENOSPC: no space left on device''
     \<in> set (errors (fst (applyFileCategories fullDiskEnv demoDest demoManifest)))"
  by (simp add: applyFileCategories_def run_def replacePhase_def mergePhase_def addPhase_def
      processPattern_def replaceFile_def mergeFile_def addFile_def copyFile_def readJson_def
      writeJson_def shouldSkip_def matchesPattern_def category_def initial_def endsWith_def
      merge_def fullDiskEnv_def demoEnv_def demoManifest_def demoGlob_def demoMatch_def
      demoSource_def demoDest_def demoParse_def demoStringify_def configIncoming_def
      configExisting_def pluginsIncoming_def pluginsExisting_def configIncomingText_def
      configExistingText_def pluginsIncomingText_def pluginsExistingText_def stateText_def
      pushReplaced_def pushMerged_def pushAdded_def pushSkipped_def pushError_def claim_def
      tick_def)

text \<open>
  C7 as amended. For a \<^verbatim>\<open>mergeIfChanged\<close> file whose destination exists and whose path
  ends in \<^verbatim>\<open>.json\<close>: when reading or parsing the source or the destination document
  fails, the failure is recorded as an error and the whole destination directory is exactly
  what it was before the attempt; when the write fails, the failure is recorded as an error,
  every other file is what it was, and the destination file is what the failed write left
  of it (what it was, when the write failed before touching it).
\<close>

theorem failed_merge_destination:
  assumes "f \<notin> processedFiles s" and "\<not> shouldSkip e nt f"
    and "destTree s f \<noteq> None" and "endsWith f ''.json''"
  shows "(\<forall>msg. readJson e (readSourceFault e (clock s) f) (sourceTree e f) = Inl msg \<longrightarrow>
            destTree (mergeFile e nt f s) = destTree s \<and>
            failedWith ''Failed to merge '' f msg s (mergeFile e nt f s)) \<and>
         (\<forall>msg incoming.
            readJson e (readSourceFault e (clock s) f) (sourceTree e f) = Inr incoming \<longrightarrow>
            readJson e (readDestFault e (clock s) f) (destTree s f) = Inl msg \<longrightarrow>
            destTree (mergeFile e nt f s) = destTree s \<and>
            failedWith ''Failed to merge '' f msg s (mergeFile e nt f s)) \<and>
         (\<forall>msg left incoming existing.
            readJson e (readSourceFault e (clock s) f) (sourceTree e f) = Inr incoming \<longrightarrow>
            readJson e (readDestFault e (clock s) f) (destTree s f) = Inr existing \<longrightarrow>
            writeFault e (clock s) f = Some (msg, left) \<longrightarrow>
            destTree (mergeFile e nt f s) = leave left f (destTree s) \<and>
            (\<forall>g. g \<noteq> f \<longrightarrow> destTree (mergeFile e nt f s) g = destTree s g) \<and>
            (left = Untouched \<longrightarrow> destTree (mergeFile e nt f s) = destTree s) \<and>
            failedWith ''Failed to merge '' f msg s (mergeFile e nt f s))"
proof -
  have 1: "destTree (mergeFile e nt f s) = destTree s \<and>
           failedWith ''Failed to merge '' f msg s (mergeFile e nt f s)"
    if "readJson e (readSourceFault e (clock s) f) (sourceTree e f) = Inl msg" for msg
    using assms that by (simp add: mergeFile_def failedWith_def)
  have 2: "destTree (mergeFile e nt f s) = destTree s \<and>
           failedWith ''Failed to merge '' f msg s (mergeFile e nt f s)"
    if "readJson e (readSourceFault e (clock s) f) (sourceTree e f) = Inr incoming"
      "readJson e (readDestFault e (clock s) f) (destTree s f) = Inl msg" for msg incoming
    using assms that by (simp add: mergeFile_def failedWith_def)
  have 3: "destTree (mergeFile e nt f s) = leave left f (destTree s) \<and>
           (\<forall>g. g \<noteq> f \<longrightarrow> destTree (mergeFile e nt f s) g = destTree s g) \<and>
           (left = Untouched \<longrightarrow> destTree (mergeFile e nt f s) = destTree s) \<and>
           failedWith ''Failed to merge '' f msg s (mergeFile e nt f s)"
    if "readJson e (readSourceFault e (clock s) f) (sourceTree e f) = Inr incoming"
      "readJson e (readDestFault e (clock s) f) (destTree s f) = Inr existing"
      "writeFault e (clock s) f = Some (msg, left)" for msg left incoming existing
  proof -
    have "mergeFile e nt f s =
            pushError (tagged ''Failed to merge '' f msg) (s\<lparr>destTree := leave left f (destTree s)\<rparr>)"
      using assms that by (simp add: mergeFile_def writeJson_def)
    then show ?thesis by (auto simp: failedWith_def leave_other)
  qed
  from 1 2 3 show ?thesis by blast
qed

theorem failed_merge_destination_witness:
  "''config.json'' \<notin> processedFiles (initial brokenDest) \<and>
   \<not> shouldSkip demoEnv [''state.json''] ''config.json'' \<and>
   destTree (initial brokenDest) ''config.json'' = Some ''{oops'' \<and>
   endsWith ''config.json'' ''.json'' \<and>
   readJson demoEnv (readSourceFault demoEnv (clock (initial brokenDest)) ''config.json'')
     (sourceTree demoEnv ''config.json'') = Inr configIncoming \<and>
   readJson demoEnv (readDestFault demoEnv (clock (initial brokenDest)) ''config.json'')
     (destTree (initial brokenDest) ''config.json'') = Inl ''Unexpected token in JSON'' \<and>
   destTree (mergeFile demoEnv [''state.json''] ''config.json'' (initial brokenDest)) = brokenDest \<and>
   errors (result (mergeFile demoEnv [''state.json''] ''config.json'' (initial brokenDest)))
     = [tagged ''Failed to merge '' ''config.json'' ''Unexpected token in JSON'']"
proof -
  have h: "''config.json'' \<notin> processedFiles (initial brokenDest)"
    "\<not> shouldSkip demoEnv [''state.json''] ''config.json''"
    "destTree (initial brokenDest) ''config.json'' \<noteq> None"
    "endsWith ''config.json'' ''.json''"
    by (simp_all add: initial_def shouldSkip_def matchesPattern_def demoEnv_def demoMatch_def
        brokenDest_def endsWith_def)
  have v: "destTree (initial brokenDest) ''config.json'' = Some ''{oops''"
    by (simp add: initial_def brokenDest_def)
  have r: "readJson demoEnv (readSourceFault demoEnv (clock (initial brokenDest)) ''config.json'')
     (sourceTree demoEnv ''config.json'') = Inr configIncoming"
    "readJson demoEnv (readDestFault demoEnv (clock (initial brokenDest)) ''config.json'')
     (destTree (initial brokenDest) ''config.json'') = Inl ''Unexpected token in JSON''"
    by (simp_all add: readJson_def demoEnv_def demoSource_def demoParse_def initial_def
        brokenDest_def configIncomingText_def configExistingText_def pluginsIncomingText_def
        pluginsExistingText_def)
  have "destTree (mergeFile demoEnv [''state.json''] ''config.json'' (initial brokenDest))
          = destTree (initial brokenDest) \<and>
        failedWith ''Failed to merge '' ''config.json'' ''Unexpected token in JSON''
          (initial brokenDest) (mergeFile demoEnv [''state.json''] ''config.json'' (initial brokenDest))"
    using failed_merge_destination[OF h] r by blast
  then show ?thesis using h v r by (simp add: failedWith_def initial_def)
qed

subsection \<open>A mergeIfChanged file that is merged\<close>




end
